theory Spec2Isabelle
  imports Main
begin

section \<open>The background script of the add-on (add-on/background.js)\<close>

text \<open>
  The script is glue between three interfaces of the browser: native messaging
  (\<^verbatim>\<open>browser.runtime.connectNative\<close>, a port's \<^verbatim>\<open>onMessage\<close> and \<^verbatim>\<open>postMessage\<close>),
  the toolbar button (\<^verbatim>\<open>browser.browserAction.onClicked\<close>) and the console. The script's
  own code (the statements of the file and its two listener functions) is embedded
  statement by statement, under the names \<open>background\<close>, \<open>onMessage_listener\<close> and
  \<open>onClicked_listener\<close>. The browser is no part of the add-on's source; it is embedded
  as far as the script touches it: a table of ports, the listeners registered, the
  connection requests, console lines and sends the script performs, and the exceptions
  that leave the script's code.
\<close>

subsection \<open>Message values and \<^verbatim>\<open>JSON.stringify\<close>\<close>

text \<open>
  A message that arrives on a native-messaging port is a value parsed from JSON text.
  An object lists its members in the order the engine enumerates them. A string is the
  byte list of its UTF-8 text; a number is an integer (what a double holds exactly and
  prints without an exponent; fractions are floating point and outside this development).
\<close>

datatype json =
    JNull
  | JBool bool
  | JNumber int
  | JString string
  | JArray "json list"
  | JObject "(string \<times> json) list"

text \<open>
  Modelled from the spec: \<^verbatim>\<open>JSON.stringify\<close>, a built-in of the language that the
  listener for inbound messages calls (section 4.1: the message is serialized to a
  textual form). The definitions follow the language standard's serialization with no
  replacer and no indentation: a number in decimal; a string quoted, with the
  two-character escapes, \<^verbatim>\<open>\u00xx\<close> for the other control characters and every other
  character as it is; the elements of an array and the members of an object separated by
  commas, with no white space.
\<close>

definition digit_char :: "nat \<Rightarrow> char" where
  "digit_char n = ''0123456789abcdef'' ! n"

fun digits :: "nat \<Rightarrow> string" where
  "digits n = (if n < 10 then [digit_char n] else digits (n div 10) @ [digit_char (n mod 10)])"

declare digits.simps [simp del]

definition Number_toString :: "int \<Rightarrow> string" where
  "Number_toString i = (if i < 0 then CHR ''-'' # digits (nat (- i)) else digits (nat i))"

definition UnicodeEscape :: "char \<Rightarrow> string" where
  "UnicodeEscape c =
     [CHR 0x5C, CHR ''u'', CHR ''0'', CHR ''0'',
      digit_char (of_char c div 16), digit_char (of_char c mod 16)]"

definition QuoteJSONChar :: "char \<Rightarrow> string" where
  "QuoteJSONChar c =
     (if c = CHR 0x08 then [CHR 0x5C, CHR ''b'']
      else if c = CHR 0x09 then [CHR 0x5C, CHR ''t'']
      else if c = CHR 0x0A then [CHR 0x5C, CHR ''n'']
      else if c = CHR 0x0C then [CHR 0x5C, CHR ''f'']
      else if c = CHR 0x0D then [CHR 0x5C, CHR ''r'']
      else if c = CHR 0x22 then [CHR 0x5C, CHR 0x22]
      else if c = CHR 0x5C then [CHR 0x5C, CHR 0x5C]
      else if (of_char c :: nat) < 0x20 then UnicodeEscape c
      else [c])"

definition QuoteJSONString :: "string \<Rightarrow> string" where
  "QuoteJSONString s = CHR 0x22 # concat (map QuoteJSONChar s) @ [CHR 0x22]"

fun join :: "string \<Rightarrow> string list \<Rightarrow> string" where
  "join sep [] = []"
| "join sep [x] = x"
| "join sep (x # y # ys) = x @ sep @ join sep (y # ys)"

fun JSON_stringify :: "json \<Rightarrow> string" where
  "JSON_stringify JNull = ''null''"
| "JSON_stringify (JBool b) = (if b then ''true'' else ''false'')"
| "JSON_stringify (JNumber i) = Number_toString i"
| "JSON_stringify (JString s) = QuoteJSONString s"
| "JSON_stringify (JArray xs) = ''['' @ join '','' (map JSON_stringify xs) @ '']''"
| "JSON_stringify (JObject kvs) =
     ''{'' @ join '','' (map (\<lambda>(k, v). QuoteJSONString k @ '':'' @ JSON_stringify v) kvs) @ ''}''"

subsection \<open>The state of the script and of the browser\<close>

text \<open>
  A port is an object the browser creates; ports are numbered in the order of their
  creation. \<open>logged\<close> is what the script passes to \<^verbatim>\<open>console.log\<close>: the value of its
  variable \<^verbatim>\<open>port\<close> (a port, or \<^verbatim>\<open>undefined\<close> before the assignment) or a string.
\<close>

datatype port = Port nat

datatype logged = LUndefined | LPort port | LString string

text \<open>
  What the script does that can be seen from outside it, in the order it happens: a
  connection request with the name of the native application
  (\<^verbatim>\<open>browser.runtime.connectNative(name)\<close>), a console line (\<^verbatim>\<open>console.log(v)\<close>), a send
  on a port (\<^verbatim>\<open>port.postMessage(m)\<close>).
\<close>

datatype action = Connect string | Log logged | Send port json

text \<open>
  The two function values the script creates, named after the event each is registered
  for; \<open>invoke\<close> below gives each its body.
\<close>

datatype listener = OnMessage_listener | OnClicked_listener

text \<open>
  The exceptions: a property read from \<^verbatim>\<open>undefined\<close>, and a send on a port that is
  disconnected.
\<close>

datatype error = TypeError | DisconnectedPort

text \<open>
  \<open>port\<close> is the script's variable \<^verbatim>\<open>var port\<close> (\<open>None\<close> is \<^verbatim>\<open>undefined\<close>) and
  \<open>actions\<close> is what the script has done so far. The other fields are the browser's:
  the ports it has created, each with the application it was requested for; the ports
  whose native application has gone or never started; the listeners registered on each
  port's \<^verbatim>\<open>onMessage\<close> and on \<^verbatim>\<open>browserAction.onClicked\<close>; the messages handed to a
  native application; and the exceptions that propagated out of the script's code.
\<close>

record world =
  port :: "port option"
  actions :: "action list"
  ports :: "(port \<times> string) list"
  disconnected :: "port list"
  onMessage :: "(port \<times> listener) list"
  onClicked :: "listener list"
  transmitted :: "(port \<times> json) list"
  uncaught :: "error list"

definition init :: world where
  "init = \<lparr>port = None, actions = [], ports = [], disconnected = [], onMessage = [],
            onClicked = [], transmitted = [], uncaught = []\<rparr>"

subsection \<open>The browser's functions that the script calls\<close>

text \<open>
  Modelled from the spec: \<^verbatim>\<open>browser.runtime.connectNative\<close> (section 4.1: a one-shot,
  non-blocking call that returns a handle immediately; the start of the native
  application and its input and output happen later and out of the script's sight). A
  native application that is absent or fails to start shows later, as the event
  \<open>Disconnect\<close>.
\<close>

definition connectNative :: "string \<Rightarrow> world \<Rightarrow> port \<times> world" where
  "connectNative name w =
     (let p = Port (length (ports w))
      in (p, w\<lparr>actions := actions w @ [Connect name], ports := ports w @ [(p, name)]\<rparr>))"

text \<open>
  Modelled from the spec: \<^verbatim>\<open>console.log\<close> (section 6: the diagnostics go to a
  console-style log sink).
\<close>

definition console_log :: "logged \<Rightarrow> world \<Rightarrow> world" where
  "console_log v w = w\<lparr>actions := actions w @ [Log v]\<rparr>"

text \<open>
  Modelled from the spec: a port's \<^verbatim>\<open>postMessage\<close> (section 4.1: fire-and-forget, no
  acknowledgement; section 7: a send can fail, and the failure is an exception of the
  platform). The call fails when the port is disconnected, and then it throws; otherwise
  the browser takes the message for the native application.
\<close>

definition postMessage :: "port \<Rightarrow> json \<Rightarrow> world \<Rightarrow> error option \<times> world" where
  "postMessage p m w =
     (let w' = w\<lparr>actions := actions w @ [Send p m]\<rparr>
      in if p \<in> set (disconnected w) then (Some DisconnectedPort, w')
         else (None, w'\<lparr>transmitted := transmitted w' @ [(p, m)]\<rparr>))"

text \<open>
  Modelled from the spec: \<^verbatim>\<open>addListener\<close> of a port's \<^verbatim>\<open>onMessage\<close> and of
  \<^verbatim>\<open>browserAction.onClicked\<close> (section 4.1: the script registers a callback).
\<close>

definition onMessage_addListener :: "port \<Rightarrow> listener \<Rightarrow> world \<Rightarrow> world" where
  "onMessage_addListener p l w = w\<lparr>onMessage := onMessage w @ [(p, l)]\<rparr>"

definition onClicked_addListener :: "listener \<Rightarrow> world \<Rightarrow> world" where
  "onClicked_addListener l w = w\<lparr>onClicked := onClicked w @ [l]\<rparr>"

subsection \<open>The script\<close>

text \<open>
  Lines 10 to 12, the function registered for inbound messages:
  \<^verbatim>\<open>(response) => { console.log("Received: " + JSON.stringify(response)); }\<close>
\<close>

definition onMessage_listener :: "json \<Rightarrow> world \<Rightarrow> error option \<times> world" where
  "onMessage_listener response w =
     (None, console_log (LString (''Received: '' @ JSON_stringify response)) w)"

text \<open>
  Lines 17 to 20, the function registered for clicks on the toolbar button:
  \<^verbatim>\<open>() => { console.log("Sending:  ping"); port.postMessage("ping"); }\<close>
  The function reads the variable \<^verbatim>\<open>port\<close> when it runs; a property of
  \<^verbatim>\<open>undefined\<close> is a \<^verbatim>\<open>TypeError\<close>. It has no \<^verbatim>\<open>try\<close>: an exception of
  \<^verbatim>\<open>postMessage\<close> is its own.
\<close>

definition onClicked_listener :: "world \<Rightarrow> error option \<times> world" where
  "onClicked_listener w =
     (let w1 = console_log (LString ''Sending:  ping'') w
      in case port w1 of
           None \<Rightarrow> (Some TypeError, w1)
         | Some p \<Rightarrow> postMessage p (JString ''ping'') w1)"

text \<open>
  The statements of the file, top to bottom:
  \<^verbatim>\<open>var port = browser.runtime.connectNative("beeves_speech_server");\<close>
  \<^verbatim>\<open>console.log(port)\<close>
  \<^verbatim>\<open>console.log('woot')\<close>
  \<^verbatim>\<open>port.onMessage.addListener(...);\<close>
  \<^verbatim>\<open>browser.browserAction.onClicked.addListener(...);\<close>
\<close>

definition background :: "world \<Rightarrow> error option \<times> world" where
  "background w0 =
     (let (p, w1) = connectNative ''beeves_speech_server'' w0;
          w2 = w1\<lparr>port := Some p\<rparr>;
          w3 = console_log (case port w2 of None \<Rightarrow> LUndefined | Some q \<Rightarrow> LPort q) w2;
          w4 = console_log (LString ''woot'') w3
      in case port w4 of
           None \<Rightarrow> (Some TypeError, w4)
         | Some q \<Rightarrow>
             (let w5 = onMessage_addListener q OnMessage_listener w4;
                  w6 = onClicked_addListener OnClicked_listener w5
              in (None, w6)))"

subsection \<open>Events\<close>

text \<open>
  Modelled from the spec: the browser's dispatch of events (section 5: single-threaded
  and event-driven; all work happens on callback dispatch, at module load, at an
  inbound message and at a click, and the runtime delivers events serially). The
  browser runs the script once, when the add-on is loaded, and afterwards calls the
  registered listeners, one event at a time: a message from the native application on a
  port calls the listeners of that port's \<^verbatim>\<open>onMessage\<close> with the message; a click on
  the toolbar button calls the listeners of \<^verbatim>\<open>onClicked\<close> with the active tab; the end
  of a port's native application (section 3: the host disconnects) marks the port
  disconnected, and since the script registers nothing for it, no code of the script
  runs then. An exception that leaves a listener or the script goes to the browser.
\<close>

fun invoke :: "listener \<Rightarrow> json \<Rightarrow> world \<Rightarrow> error option \<times> world" where
  "invoke OnMessage_listener arg w = onMessage_listener arg w"
| "invoke OnClicked_listener arg w = onClicked_listener w"

fun dispatch :: "listener list \<Rightarrow> json \<Rightarrow> world \<Rightarrow> world" where
  "dispatch [] arg w = w"
| "dispatch (l # ls) arg w =
     (case invoke l arg w of
        (None, w') \<Rightarrow> dispatch ls arg w'
      | (Some e, w') \<Rightarrow> dispatch ls arg (w'\<lparr>uncaught := uncaught w' @ [e]\<rparr>))"

datatype event =
    is_Message: Message port json
  | is_Clicked: Clicked json
  | is_Disconnect: Disconnect port

fun step :: "world \<Rightarrow> event \<Rightarrow> world" where
  "step w (Message p m) = dispatch (map snd (filter (\<lambda>(q, l). q = p) (onMessage w))) m w"
| "step w (Clicked tab) = dispatch (onClicked w) tab w"
| "step w (Disconnect p) = w\<lparr>disconnected := p # disconnected w\<rparr>"

text \<open>The state after the load of the script, and after the events that follow it.\<close>

definition startup :: world where
  "startup =
     (case background init of
        (None, w) \<Rightarrow> w
      | (Some e, w) \<Rightarrow> w\<lparr>uncaught := uncaught w @ [e]\<rparr>)"

definition run :: "event list \<Rightarrow> world" where
  "run evs = foldl step startup evs"

subsection \<open>Reading a state\<close>

text \<open>
  The connection requests, the console lines and the sends among a list of actions, and
  the actions performed between a state and a later one.
\<close>

fun connects :: "action list \<Rightarrow> string list" where
  "connects [] = []"
| "connects (Connect name # as) = name # connects as"
| "connects (a # as) = connects as"

fun logs :: "action list \<Rightarrow> logged list" where
  "logs [] = []"
| "logs (Log v # as) = v # logs as"
| "logs (a # as) = logs as"

fun sends :: "action list \<Rightarrow> (port \<times> json) list" where
  "sends [] = []"
| "sends (Send p m # as) = (p, m) # sends as"
| "sends (a # as) = sends as"

definition performed :: "world \<Rightarrow> world \<Rightarrow> action list" where
  "performed w w' = drop (length (actions w)) (actions w')"

text \<open>
  The state the script sets up: its variable holds the first port, the browser has that
  one port, and each of the two functions is registered once.
\<close>

definition wired :: "world \<Rightarrow> bool" where
  "wired w \<longleftrightarrow>
     port w = Some (Port 0) \<and> ports w = [(Port 0, ''beeves_speech_server'')] \<and>
     onMessage w = [(Port 0, OnMessage_listener)] \<and> onClicked w = [OnClicked_listener]"

section \<open>Properties\<close>

subsection \<open>Projections and the start state\<close>

lemma run_Nil: "run [] = startup"
  by (simp add: run_def)

lemma connects_append: "connects (xs @ ys) = connects xs @ connects ys"
  by (induction xs rule: connects.induct) simp_all

lemma logs_append: "logs (xs @ ys) = logs xs @ logs ys"
  by (induction xs rule: logs.induct) simp_all

lemma sends_append: "sends (xs @ ys) = sends xs @ sends ys"
  by (induction xs rule: sends.induct) simp_all

lemma startup_eq:
  "startup =
     \<lparr>port = Some (Port 0),
      actions = [Connect ''beeves_speech_server'', Log (LPort (Port 0)), Log (LString ''woot'')],
      ports = [(Port 0, ''beeves_speech_server'')], disconnected = [],
      onMessage = [(Port 0, OnMessage_listener)], onClicked = [OnClicked_listener],
      transmitted = [], uncaught = []\<rparr>"
  by (simp add: startup_def background_def init_def connectNative_def console_log_def
      onMessage_addListener_def onClicked_addListener_def Let_def)

lemma wired_startup: "wired startup"
  by (simp add: wired_def startup_eq)

lemma step_Message_wired:
  assumes "wired w"
  shows "step w (Message (Port 0) m) =
           w\<lparr>actions := actions w @ [Log (LString (''Received: '' @ JSON_stringify m))]\<rparr>"
  using assms by (simp add: wired_def onMessage_listener_def console_log_def)

lemma step_Message_other:
  assumes "wired w" and "p \<noteq> Port 0"
  shows "step w (Message p m) = w"
  using assms by (simp add: wired_def)

lemma step_Clicked_wired:
  assumes "wired w"
  shows "step w (Clicked tab) =
           (if Port 0 \<in> set (disconnected w)
            then w\<lparr>actions := actions w @ [Log (LString ''Sending:  ping''), Send (Port 0) (JString ''ping'')],
                   uncaught := uncaught w @ [DisconnectedPort]\<rparr>
            else w\<lparr>actions := actions w @ [Log (LString ''Sending:  ping''), Send (Port 0) (JString ''ping'')],
                   transmitted := transmitted w @ [(Port 0, JString ''ping'')]\<rparr>)"
  using assms
  by (simp add: wired_def onClicked_listener_def postMessage_def console_log_def)

lemma wired_step:
  assumes "wired w"
  shows "wired (step w e)"
proof (cases e)
  case (Message p m)
  show ?thesis
  proof (cases "p = Port 0")
    case True
    from assms
    have "step w (Message (Port 0) m) =
            w\<lparr>actions := actions w @ [Log (LString (''Received: '' @ JSON_stringify m))]\<rparr>"
      by (rule step_Message_wired)
    with assms Message True show ?thesis
      by (simp add: wired_def)
  next
    case False
    with assms have "step w (Message p m) = w"
      by (rule step_Message_other)
    with assms Message show ?thesis
      by simp
  qed
next
  case (Clicked tab)
  from assms have "wired (step w (Clicked tab))"
    by (simp only: step_Clicked_wired) (simp add: wired_def)
  with Clicked show ?thesis
    by simp
next
  case (Disconnect p)
  with assms show ?thesis
    by (simp add: wired_def)
qed

lemma wired_foldl: "wired w \<Longrightarrow> wired (foldl step w evs)"
  by (induction evs arbitrary: w) (simp_all add: wired_step)

lemma wired_run: "wired (run evs)"
  by (simp add: run_def wired_foldl wired_startup)

lemma run_snoc: "run (evs @ [e]) = step (run evs) e"
  by (simp add: run_def)


subsection \<open>What a listener leaves alone\<close>

lemma onMessage_listener_eq:
  "onMessage_listener m w =
     (None, w\<lparr>actions := actions w @ [Log (LString (''Received: '' @ JSON_stringify m))]\<rparr>)"
  by (simp add: onMessage_listener_def console_log_def)

lemma onClicked_listener_frame:
  "port (snd (onClicked_listener w)) = port w \<and>
   ports (snd (onClicked_listener w)) = ports w \<and>
   onMessage (snd (onClicked_listener w)) = onMessage w \<and>
   onClicked (snd (onClicked_listener w)) = onClicked w \<and>
   disconnected (snd (onClicked_listener w)) = disconnected w \<and>
   connects (actions (snd (onClicked_listener w))) = connects (actions w) \<and>
   uncaught (snd (onClicked_listener w)) = uncaught w"
  by (simp add: onClicked_listener_def postMessage_def console_log_def Let_def connects_append
      split: option.split)

lemma invoke_frame:
  "port (snd (invoke l arg w)) = port w \<and>
   ports (snd (invoke l arg w)) = ports w \<and>
   connects (actions (snd (invoke l arg w))) = connects (actions w)"
proof (cases l)
  case OnMessage_listener
  then show ?thesis
    by (simp add: onMessage_listener_eq connects_append)
next
  case OnClicked_listener
  then show ?thesis
    by (simp add: onClicked_listener_frame)
qed

lemma dispatch_frame:
  "port (dispatch ls arg w) = port w \<and>
   ports (dispatch ls arg w) = ports w \<and>
   connects (actions (dispatch ls arg w)) = connects (actions w)"
proof (induction ls arbitrary: w)
  case Nil
  show ?case by simp
next
  case (Cons l ls)
  obtain r w' where inv: "invoke l arg w = (r, w')"
    by (cases "invoke l arg w")
  from invoke_frame [of l arg w] inv
  have w': "port w' = port w \<and> ports w' = ports w \<and> connects (actions w') = connects (actions w)"
    by simp
  show ?case
  proof (cases r)
    case None
    with inv have "dispatch (l # ls) arg w = dispatch ls arg w'"
      by simp
    with Cons.IH [of w'] w' show ?thesis
      by simp
  next
    case (Some e)
    with inv
    have "dispatch (l # ls) arg w = dispatch ls arg (w'\<lparr>uncaught := uncaught w' @ [e]\<rparr>)"
      by simp
    with Cons.IH [of "w'\<lparr>uncaught := uncaught w' @ [e]\<rparr>"] w' show ?thesis
      by simp
  qed
qed

lemma step_frame:
  "port (step w e) = port w \<and> ports (step w e) = ports w \<and>
   connects (actions (step w e)) = connects (actions w)"
  by (cases e) (simp_all add: dispatch_frame)

subsection \<open>Every run\<close>

lemma connects_run: "connects (actions (run evs)) = [''beeves_speech_server'']"
proof (induction evs rule: rev_induct)
  case Nil
  show ?case by (simp add: run_Nil startup_eq)
next
  case (snoc e evs)
  then show ?case by (simp add: run_snoc step_frame)
qed

lemma actions_step_Message:
  "actions (step (run evs) (Message (Port 0) m)) =
     actions (run evs) @ [Log (LString (''Received: '' @ JSON_stringify m))]"
  by (simp only: step_Message_wired [OF wired_run]) simp

lemma actions_step_Clicked:
  "actions (step (run evs) (Clicked tab)) =
     actions (run evs) @ [Log (LString ''Sending:  ping''), Send (Port 0) (JString ''ping'')]"
  by (simp only: step_Clicked_wired [OF wired_run]) simp

lemma sends_step:
  "sends (actions (step (run evs) e)) =
     sends (actions (run evs)) @ (if is_Clicked e then [(Port 0, JString ''ping'')] else [])"
proof (cases e)
  case (Message p m)
  show ?thesis
  proof (cases "p = Port 0")
    case True
    with Message show ?thesis
      by (simp only: actions_step_Message sends_append) simp
  next
    case False
    with wired_run [of evs] have "step (run evs) (Message p m) = run evs"
      by (rule step_Message_other)
    with Message show ?thesis
      by simp
  qed
next
  case (Clicked tab)
  then show ?thesis
    by (simp only: actions_step_Clicked sends_append) simp
next
  case (Disconnect p)
  then show ?thesis
    by simp
qed

lemma sends_run:
  "sends (actions (run evs)) = map (\<lambda>e. (Port 0, JString ''ping'')) (filter is_Clicked evs)"
proof (induction evs rule: rev_induct)
  case Nil
  show ?case by (simp add: run_Nil startup_eq)
next
  case (snoc e evs)
  then show ?case by (simp add: run_snoc sends_step)
qed

lemma outcome_step:
  "length (uncaught (step (run evs) e)) + length (transmitted (step (run evs) e)) =
     length (uncaught (run evs)) + length (transmitted (run evs)) + (if is_Clicked e then 1 else 0)"
proof (cases e)
  case (Message p m)
  show ?thesis
  proof (cases "p = Port 0")
    case True
    with Message show ?thesis
      by (simp only: step_Message_wired [OF wired_run]) simp
  next
    case False
    with wired_run [of evs] have "step (run evs) (Message p m) = run evs"
      by (rule step_Message_other)
    with Message show ?thesis
      by simp
  qed
next
  case (Clicked tab)
  then show ?thesis
    by (simp only: step_Clicked_wired [OF wired_run]) simp
next
  case (Disconnect p)
  then show ?thesis
    by simp
qed

lemma outcome_run:
  "length (uncaught (run evs)) + length (transmitted (run evs)) = length (filter is_Clicked evs)"
proof (induction evs rule: rev_induct)
  case Nil
  show ?case by (simp add: run_Nil startup_eq)
next
  case (snoc e evs)
  then show ?case by (simp add: run_snoc outcome_step)
qed

lemma step_Disconnect_only:
  assumes "is_Disconnect e"
  shows "actions (step w e) = actions w \<and> transmitted (step w e) = transmitted w \<and>
         uncaught (step w e) = uncaught w"
  using assms by (cases e) simp_all

lemma run_Disconnect_only:
  assumes "\<forall>e \<in> set evs. is_Disconnect e"
  shows "actions (run evs) = actions startup \<and> transmitted (run evs) = [] \<and> uncaught (run evs) = []"
  using assms
proof (induction evs rule: rev_induct)
  case Nil
  show ?case by (simp add: run_Nil startup_eq)
next
  case (snoc e evs)
  then show ?case by (simp add: run_snoc step_Disconnect_only)
qed

lemma performed_append: "actions w' = actions w @ as \<Longrightarrow> performed w w' = as"
  by (simp add: performed_def)

lemma performed_step:
  "performed (run evs) (step (run evs) e) =
     (case e of
        Message p m \<Rightarrow>
          if p = Port 0 then [Log (LString (''Received: '' @ JSON_stringify m))] else []
      | Clicked tab \<Rightarrow> [Log (LString ''Sending:  ping''), Send (Port 0) (JString ''ping'')]
      | Disconnect p \<Rightarrow> [])"
proof (cases e)
  case (Message p m)
  show ?thesis
  proof (cases "p = Port 0")
    case True
    with Message show ?thesis
      by (simp only: performed_append [OF actions_step_Message]) simp
  next
    case False
    with wired_run [of evs] have "step (run evs) (Message p m) = run evs"
      by (rule step_Message_other)
    with Message False show ?thesis
      by (simp add: performed_def)
  qed
next
  case (Clicked tab)
  then show ?thesis
    by (simp only: performed_append [OF actions_step_Clicked]) simp
next
  case (Disconnect p)
  then show ?thesis
    by (simp add: performed_def)
qed

subsection \<open>The claims\<close>

text \<open>
  Claim C1. In every run, whatever events came before (inbound messages included), a click
  on the toolbar button makes the script perform two actions and no more: the console
  line and one call of \<^verbatim>\<open>postMessage\<close> on the port opened at load, with the string
  \<^verbatim>\<open>"ping"\<close>. So the sends performed by the click are exactly that one. The browser
  hands the message to the native application unless the port is disconnected.
\<close>
theorem click_sends_one_ping:
  "actions (step (run evs) (Clicked tab)) =
     actions (run evs) @ [Log (LString ''Sending:  ping''), Send (Port 0) (JString ''ping'')] \<and>
   sends (performed (run evs) (step (run evs) (Clicked tab))) = [(Port 0, JString ''ping'')] \<and>
   transmitted (step (run evs) (Clicked tab)) =
     (if Port 0 \<in> set (disconnected (run evs)) then transmitted (run evs)
      else transmitted (run evs) @ [(Port 0, JString ''ping'')])"
proof -
  have a: "actions (step (run evs) (Clicked tab)) =
     actions (run evs) @ [Log (LString ''Sending:  ping''), Send (Port 0) (JString ''ping'')]"
    by (rule actions_step_Clicked)
  from performed_append [OF a]
  have s: "sends (performed (run evs) (step (run evs) (Clicked tab))) = [(Port 0, JString ''ping'')]"
    by simp
  have t: "transmitted (step (run evs) (Clicked tab)) =
     (if Port 0 \<in> set (disconnected (run evs)) then transmitted (run evs)
      else transmitted (run evs) @ [(Port 0, JString ''ping'')])"
    by (simp only: step_Clicked_wired [OF wired_run]) simp
  from a s t show ?thesis
    by (simp only: simp_thms)
qed

text \<open>
  Claim C2. The listener for inbound messages completes normally on every message \<open>M\<close>
  and every state, and changes the state only by one console line, \<^verbatim>\<open>Received: \<close>
  followed by \<^verbatim>\<open>JSON.stringify\<close> of \<open>M\<close> itself. In every run, the delivery of \<open>M\<close> on
  the script's port has exactly this effect on the whole state: nothing is sent, nothing
  is registered, no exception is raised.
\<close>
theorem inbound_message_logged_once:
  "onMessage_listener M w =
     (None, w\<lparr>actions := actions w @ [Log (LString (''Received: '' @ JSON_stringify M))]\<rparr>) \<and>
   step (run evs) (Message (Port 0) M) =
     (run evs)\<lparr>actions := actions (run evs) @ [Log (LString (''Received: '' @ JSON_stringify M))]\<rparr>"
proof
  show "onMessage_listener M w =
     (None, w\<lparr>actions := actions w @ [Log (LString (''Received: '' @ JSON_stringify M))]\<rparr>)"
    by (rule onMessage_listener_eq)
  from wired_run [of evs]
  show "step (run evs) (Message (Port 0) M) =
     (run evs)\<lparr>actions := actions (run evs) @ [Log (LString (''Received: '' @ JSON_stringify M))]\<rparr>"
    by (rule step_Message_wired)
qed

text \<open>
  Claim C3. The script's load performs one connection request, as its first action, for
  the application \<^verbatim>\<open>beeves_speech_server\<close>; in every run that request stays the only one,
  and no event makes the script request a connection.
\<close>
theorem one_connection_request:
  "actions startup =
     [Connect ''beeves_speech_server'', Log (LPort (Port 0)), Log (LString ''woot'')] \<and>
   connects (actions (run evs)) = [''beeves_speech_server''] \<and>
   connects (performed (run evs) (step (run evs) e)) = []"
proof -
  have "connects (performed (run evs) (step (run evs) e)) = []"
    by (simp only: performed_step) (simp split: event.split)
  then show ?thesis
    by (simp add: startup_eq connects_run)
qed

text \<open>
  Claim C4. The load of the script sends nothing; in every run, an inbound message and
  the end of the native application make the script send nothing, and nothing is handed
  to the native application then; and the sends of a run are one \<^verbatim>\<open>"ping"\<close> for
  each click among its events.
\<close>
theorem sends_only_on_click:
  "sends (actions startup) = [] \<and> transmitted startup = [] \<and>
   sends (performed (run evs) (step (run evs) (Message p M))) = [] \<and>
   transmitted (step (run evs) (Message p M)) = transmitted (run evs) \<and>
   sends (performed (run evs) (step (run evs) (Disconnect p))) = [] \<and>
   transmitted (step (run evs) (Disconnect p)) = transmitted (run evs) \<and>
   sends (actions (run evs)) = map (\<lambda>e. (Port 0, JString ''ping'')) (filter is_Clicked evs)"
proof -
  have "sends (performed (run evs) (step (run evs) (Message p M))) = []"
    by (simp only: performed_step) simp
  moreover have "transmitted (step (run evs) (Message p M)) = transmitted (run evs)"
  proof (cases "p = Port 0")
    case True
    then show ?thesis
      by (simp only: step_Message_wired [OF wired_run]) simp
  next
    case False
    with wired_run [of evs] have "step (run evs) (Message p M) = run evs"
      by (rule step_Message_other)
    then show ?thesis
      by simp
  qed
  moreover have "sends (performed (run evs) (step (run evs) (Disconnect p))) = []"
    by (simp only: performed_step) simp
  moreover have "transmitted (step (run evs) (Disconnect p)) = transmitted (run evs)"
    by simp
  moreover have "sends (actions startup) = [] \<and> transmitted startup = []"
    by (simp add: startup_eq)
  ultimately show ?thesis
    by (simp only: sends_run simp_thms)
qed

text \<open>
  Claim C5. The add-on is loaded, the native application sends the object
  \<^verbatim>\<open>{"status":"ok"}\<close>, the user clicks the button. The state at the end: one connection,
  requested for \<^verbatim>\<open>beeves_speech_server\<close>; the console lines of the load, then
  \<^verbatim>\<open>Received: {"status":"ok"}\<close>, then \<^verbatim>\<open>Sending:  ping\<close> with two spaces; the string
  \<^verbatim>\<open>"ping"\<close> sent on the port and handed to the native application; no exception.
\<close>
theorem scenario_status_ok_then_click:
  \<open>run [Message (Port 0) (JObject [(''status'', JString ''ok'')]), Clicked tab] =
     \<lparr>port = Some (Port 0),
      actions =
        [Connect ''beeves_speech_server'', Log (LPort (Port 0)), Log (LString ''woot''),
         Log (LString ''Received: {"status":"ok"}''),
         Log (LString ''Sending:  ping''), Send (Port 0) (JString ''ping'')],
      ports = [(Port 0, ''beeves_speech_server'')], disconnected = [],
      onMessage = [(Port 0, OnMessage_listener)], onClicked = [OnClicked_listener],
      transmitted = [(Port 0, JString ''ping'')], uncaught = []\<rparr>\<close>
  by (simp add: run_def startup_eq onMessage_listener_def onClicked_listener_def
      postMessage_def console_log_def QuoteJSONString_def QuoteJSONChar_def)

text \<open>
  Claim C6. In a run with no inbound message and no click, the script has performed
  the actions of its load and nothing else: the connection request and the two console
  lines of the load (the port, then \<^verbatim>\<open>woot\<close>). There is no send, and nothing has been
  handed to the native application.
\<close>
theorem scenario_idle:
  assumes "\<forall>e \<in> set evs. \<not> is_Message e \<and> \<not> is_Clicked e"
  shows "actions (run evs) =
           [Connect ''beeves_speech_server'', Log (LPort (Port 0)), Log (LString ''woot'')] \<and>
         sends (actions (run evs)) = [] \<and> transmitted (run evs) = [] \<and>
         logs (actions (run evs)) = [LPort (Port 0), LString ''woot'']"
proof -
  have "is_Disconnect e" if "e \<in> set evs" for e
    using assms that by (cases e) auto
  then have "\<forall>e \<in> set evs. is_Disconnect e"
    by simp
  then have "actions (run evs) = actions startup \<and> transmitted (run evs) = []"
    by (simp only: run_Disconnect_only)
  then show ?thesis
    by (simp add: startup_eq)
qed

theorem scenario_idle_witness:
  "actions (run [Disconnect (Port 0)]) =
           [Connect ''beeves_speech_server'', Log (LPort (Port 0)), Log (LString ''woot'')] \<and>
   sends (actions (run [Disconnect (Port 0)])) = [] \<and> transmitted (run [Disconnect (Port 0)]) = [] \<and>
   logs (actions (run [Disconnect (Port 0)])) = [LPort (Port 0), LString ''woot''] \<and>
   actions (run []) =
           [Connect ''beeves_speech_server'', Log (LPort (Port 0)), Log (LString ''woot'')] \<and>
   sends (actions (run [])) = [] \<and> transmitted (run []) = [] \<and>
   logs (actions (run [])) = [LPort (Port 0), LString ''woot'']"
  using scenario_idle [of "[Disconnect (Port 0)]"] scenario_idle [of "[]"] by simp

text \<open>
  Claim C7. Before the script runs there is no port. The script's load creates one port,
  for \<^verbatim>\<open>beeves_speech_server\<close>. No event creates a port, in any state. So in every run
  there is exactly one port, the one the script's variable holds.
\<close>
theorem single_connection:
  "ports init = [] \<and>
   ports (snd (background w)) =
     ports w @ [(Port (length (ports w)), ''beeves_speech_server'')] \<and>
   ports (step w e) = ports w \<and>
   ports (run evs) = [(Port 0, ''beeves_speech_server'')] \<and>
   port (run evs) = Some (Port 0)"
proof -
  have "ports (snd (background w)) =
     ports w @ [(Port (length (ports w)), ''beeves_speech_server'')]"
    by (simp add: background_def connectNative_def console_log_def onMessage_addListener_def
        onClicked_addListener_def Let_def)
  moreover have "ports (step w e) = ports w"
    by (simp only: step_frame)
  moreover from wired_run [of evs]
  have "ports (run evs) = [(Port 0, ''beeves_speech_server'')] \<and> port (run evs) = Some (Port 0)"
    by (simp add: wired_def)
  ultimately show ?thesis
    by (simp add: init_def)
qed

text \<open>
  Claim C8. The script handles no failure. When the port is disconnected (the native
  application is absent, could not be started, or has gone), a click still makes the
  listener write its console line and call \<^verbatim>\<open>postMessage\<close> once; the exception of that
  call is the listener's own outcome and reaches the browser uncaught, with no second
  attempt and no further console line. The disconnection itself makes the script do
  nothing. In every run, each send has either been handed to the native application or
  has ended as an uncaught exception.
\<close>
theorem failures_propagate_unhandled:
  "(Port 0 \<in> set (disconnected (run evs)) \<longrightarrow>
      onClicked_listener (run evs) =
        (Some DisconnectedPort,
         (run evs)\<lparr>actions := actions (run evs) @
            [Log (LString ''Sending:  ping''), Send (Port 0) (JString ''ping'')]\<rparr>) \<and>
      step (run evs) (Clicked tab) =
        (run evs)\<lparr>actions := actions (run evs) @
            [Log (LString ''Sending:  ping''), Send (Port 0) (JString ''ping'')],
          uncaught := uncaught (run evs) @ [DisconnectedPort]\<rparr>) \<and>
   performed (run evs) (step (run evs) (Disconnect p)) = [] \<and>
   uncaught (step (run evs) (Disconnect p)) = uncaught (run evs) \<and>
   length (uncaught (run evs)) + length (transmitted (run evs)) =
     length (sends (actions (run evs)))"
proof -
  have w: "wired (run evs)"
    by (rule wired_run)
  have "onClicked_listener (run evs) =
        (Some DisconnectedPort,
         (run evs)\<lparr>actions := actions (run evs) @
            [Log (LString ''Sending:  ping''), Send (Port 0) (JString ''ping'')]\<rparr>)"
    if "Port 0 \<in> set (disconnected (run evs))"
    using w that by (simp add: wired_def onClicked_listener_def postMessage_def console_log_def)
  moreover have "step (run evs) (Clicked tab) =
        (run evs)\<lparr>actions := actions (run evs) @
            [Log (LString ''Sending:  ping''), Send (Port 0) (JString ''ping'')],
          uncaught := uncaught (run evs) @ [DisconnectedPort]\<rparr>"
    if "Port 0 \<in> set (disconnected (run evs))"
    using that by (simp only: step_Clicked_wired [OF w] if_True)
  moreover have "performed (run evs) (step (run evs) (Disconnect p)) = []"
    by (simp only: performed_step) simp
  moreover have "uncaught (step (run evs) (Disconnect p)) = uncaught (run evs)"
    by simp
  moreover have "length (uncaught (run evs)) + length (transmitted (run evs)) =
     length (sends (actions (run evs)))"
    by (simp add: outcome_run sends_run)
  ultimately show ?thesis
    by blast
qed

theorem failures_propagate_unhandled_witness:
  "Port 0 \<in> set (disconnected (run [Disconnect (Port 0)])) \<and>
   onClicked_listener (run [Disconnect (Port 0)]) =
     (Some DisconnectedPort,
      (run [Disconnect (Port 0)])\<lparr>actions := actions (run [Disconnect (Port 0)]) @
            [Log (LString ''Sending:  ping''), Send (Port 0) (JString ''ping'')]\<rparr>) \<and>
   uncaught (step (run [Disconnect (Port 0)]) (Clicked JNull)) = [DisconnectedPort] \<and>
   transmitted (step (run [Disconnect (Port 0)]) (Clicked JNull)) = []"
proof -
  have d: "Port 0 \<in> set (disconnected (run [Disconnect (Port 0)]))"
    by (simp add: run_def)
  have u: "uncaught (run [Disconnect (Port 0)]) = [] \<and> transmitted (run [Disconnect (Port 0)]) = []"
    by (simp add: run_def startup_eq)
  from failures_propagate_unhandled [of "[Disconnect (Port 0)]" JNull] d u show ?thesis
    by simp
qed

text \<open>
  Claim C9. What the listener for inbound messages does is a function of the message
  alone: in every state, and at a delivery in every run, it performs the one console line
  \<^verbatim>\<open>Received: \<close> followed by \<^verbatim>\<open>JSON.stringify\<close> of the message. Two deliveries of the same
  message, in any two runs, perform the same.
\<close>
theorem inbound_log_entry_determined_by_message:
  "performed w (snd (onMessage_listener M w)) =
     [Log (LString (''Received: '' @ JSON_stringify M))] \<and>
   performed (run evs) (step (run evs) (Message (Port 0) M)) =
     [Log (LString (''Received: '' @ JSON_stringify M))] \<and>
   performed (run evs) (step (run evs) (Message (Port 0) M)) =
     performed (run evs') (step (run evs') (Message (Port 0) M))"
proof -
  have "performed w (snd (onMessage_listener M w)) =
     [Log (LString (''Received: '' @ JSON_stringify M))]"
    by (simp add: onMessage_listener_eq performed_def)
  moreover have "performed (run xs) (step (run xs) (Message (Port 0) M)) =
     [Log (LString (''Received: '' @ JSON_stringify M))]" for xs
    by (simp only: performed_step) simp
  ultimately show ?thesis
    by simp
qed

text \<open>
  Claim C10. The variable \<^verbatim>\<open>port\<close> is assigned at load, the port that \<^verbatim>\<open>connectNative\<close>
  returned. Neither listener changes it, nor does any event, in any state; so in every
  run it holds that port, and every send of the run was made on that port.
\<close>
theorem port_never_reassigned:
  "fst (connectNative ''beeves_speech_server'' init) = Port 0 \<and>
   port startup = Some (Port 0) \<and>
   port (snd (onMessage_listener M w)) = port w \<and>
   port (snd (onClicked_listener w)) = port w \<and>
   port (step w e) = port w \<and>
   port (run evs) = Some (Port 0) \<and>
   map fst (sends (actions (run evs))) = replicate (length (filter is_Clicked evs)) (Port 0)"
proof -
  have "fst (connectNative ''beeves_speech_server'' init) = Port 0"
    by (simp add: connectNative_def init_def Let_def)
  moreover have "port startup = Some (Port 0)"
    by (simp add: startup_eq)
  moreover have "port (snd (onMessage_listener M w)) = port w"
    by (simp add: onMessage_listener_eq)
  moreover have "port (snd (onClicked_listener w)) = port w"
    by (simp only: onClicked_listener_frame)
  moreover have "port (step w e) = port w"
    by (simp only: step_frame)
  moreover from wired_run [of evs] have "port (run evs) = Some (Port 0)"
    by (simp add: wired_def)
  moreover have "map fst (sends (actions (run evs))) =
      replicate (length (filter is_Clicked evs)) (Port 0)"
    by (simp add: sends_run map_replicate_const)
  ultimately show ?thesis
    by (simp only: simp_thms)
qed

end
